theory Spec2Isabelle
  imports Complex_Main "HOL-Library.Char_ord" "HOL-Library.List_Lexorder"
begin

section \<open>Numbers and strings of the utility layer\<close>

text \<open>
  The program computes with Python floats and stores them in SQLite REAL columns.
  A finite float is modelled by the exact rational it denotes: rounding to the nearest
  double is outside the model, the special values are inside it.  A decimal literal
  whose value reaches the overflow boundary of a double (\<open>2^1024 - 2^970\<close>, the
  midpoint between the largest double and \<open>2^1024\<close>) denotes an infinity, as in Python.

  Strings are lists of 8-bit characters; the model is about ASCII text (a character
  above 127 is neither a digit nor white space).
\<close>

datatype pyfloat = Fin rat | PInf | NInf | NaN

datatype py_exception = ValueError | TypeError | OverflowError | OperationalError

definition float_max_bound :: rat where
  "float_max_bound = 2 ^ 1024 - 2 ^ 970"

definition mk_float :: "rat \<Rightarrow> pyfloat" where
  "mk_float r = (if float_max_bound \<le> r then PInf
                 else if r \<le> - float_max_bound then NInf else Fin r)"

fun fneg :: "pyfloat \<Rightarrow> pyfloat" where
  "fneg (Fin r) = Fin (- r)"
| "fneg PInf = NInf"
| "fneg NInf = PInf"
| "fneg NaN = NaN"

fun fadd :: "pyfloat \<Rightarrow> pyfloat \<Rightarrow> pyfloat" where
  "fadd (Fin a) (Fin b) = mk_float (a + b)"
| "fadd NaN _ = NaN"
| "fadd _ NaN = NaN"
| "fadd PInf NInf = NaN"
| "fadd NInf PInf = NaN"
| "fadd PInf _ = PInf"
| "fadd NInf _ = NInf"
| "fadd _ PInf = PInf"
| "fadd _ NInf = NInf"

definition fsub :: "pyfloat \<Rightarrow> pyfloat \<Rightarrow> pyfloat" where
  "fsub a b = fadd a (fneg b)"

text \<open>\<open>x <= 0\<close> on floats: every comparison with NaN is false.\<close>

fun fle_zero :: "pyfloat \<Rightarrow> bool" where
  "fle_zero (Fin r) = (r \<le> 0)"
| "fle_zero NInf = True"
| "fle_zero PInf = False"
| "fle_zero NaN = False"

definition is_digit :: "char \<Rightarrow> bool" where
  "is_digit c = (CHR ''0'' \<le> c \<and> c \<le> CHR ''9'')"

definition digit_val :: "char \<Rightarrow> nat" where
  "digit_val c = of_char c - 48"

text \<open>\<open>str.isspace\<close> on ASCII: tab, line feed, vertical tab, form feed, carriage
  return, the four separators 0x1c..0x1f and the space.\<close>

definition py_isspace :: "char \<Rightarrow> bool" where
  "py_isspace c = (let n = (of_char c :: nat) in (9 \<le> n \<and> n \<le> 13) \<or> (28 \<le> n \<and> n \<le> 32))"

definition strip :: "string \<Rightarrow> string" where
  "strip s = rev (dropWhile py_isspace (rev (dropWhile py_isspace s)))"

definition nat_of_digits :: "string \<Rightarrow> nat" where
  "nat_of_digits ds = foldl (\<lambda>n c. 10 * n + digit_val c) 0 ds"

definition lower :: "char \<Rightarrow> char" where
  "lower c = (if CHR ''A'' \<le> c \<and> c \<le> CHR ''Z'' then char_of (of_char c + (32::nat)) else c)"

text \<open>
  Python's \<open>float(str)\<close>.  The grammar of the language reference: optional sign, then
  \<open>inf\<close>, \<open>infinity\<close> or \<open>nan\<close> in any case, or a decimal number with an optional
  exponent; white space around it is ignored; an underscore may stand between two digits.
\<close>

fun underscores_ok :: "string \<Rightarrow> bool" where
  "underscores_ok (a # b # c # cs) =
     ((b = CHR ''_'' \<longrightarrow> is_digit a \<and> is_digit c) \<and> underscores_ok (b # c # cs))"
| "underscores_ok [a, b] = (b \<noteq> CHR ''_'')"
| "underscores_ok _ = True"

definition split_sign :: "string \<Rightarrow> bool \<times> string" where
  "split_sign s = (case s of
       [] \<Rightarrow> (False, [])
     | c # r \<Rightarrow> if c = CHR ''-'' then (True, r)
               else if c = CHR ''+'' then (False, r) else (False, s))"

definition special_value :: "string \<Rightarrow> pyfloat option" where
  "special_value s = (let l = map lower s in
     if l = ''inf'' \<or> l = ''infinity'' then Some PInf
     else if l = ''nan'' then Some NaN else None)"

definition is_exp_mark :: "char \<Rightarrow> bool" where
  "is_exp_mark c = (c = CHR ''e'' \<or> c = CHR ''E'')"

text \<open>The exponent after the mark: optional sign and at least one digit.\<close>

definition exponent_part :: "string \<Rightarrow> int option" where
  "exponent_part s = (let (neg, ds) = split_sign s in
     if ds \<noteq> [] \<and> list_all is_digit ds
     then Some (if neg then - int (nat_of_digits ds) else int (nat_of_digits ds))
     else None)"

text \<open>The mantissa: digits, optionally a point and digits, at least one digit in all.
  The result is the digit string without the point and the number of fraction digits.\<close>

definition mantissa_part :: "string \<Rightarrow> (nat \<times> nat) option" where
  "mantissa_part s = (let ip = takeWhile is_digit s; r = dropWhile is_digit s in
     case r of
       [] \<Rightarrow> if ip = [] then None else Some (nat_of_digits ip, 0)
     | c # fp \<Rightarrow> if c = CHR ''.'' \<and> list_all is_digit fp \<and> ip @ fp \<noteq> []
                then Some (nat_of_digits (ip @ fp), length fp) else None)"

definition decimal_number :: "string \<Rightarrow> rat option" where
  "decimal_number s = (let m = takeWhile (\<lambda>c. \<not> is_exp_mark c) s;
                           r = dropWhile (\<lambda>c. \<not> is_exp_mark c) s in
     case mantissa_part m of
       None \<Rightarrow> None
     | Some (n, k) \<Rightarrow>
        (case r of
           [] \<Rightarrow> Some (of_nat n / 10 ^ k)
         | _ # es \<Rightarrow> (case exponent_part es of
                        None \<Rightarrow> None
                      | Some e \<Rightarrow> Some (of_nat n / 10 ^ k * (if 0 \<le> e then 10 ^ nat e else 1 / 10 ^ nat (- e))))))"

definition py_float :: "string \<Rightarrow> py_exception + pyfloat" where
  "py_float s = (let t = strip s in
     if \<not> underscores_ok (CHR '' '' # t @ '' '') then Inl ValueError
     else let (neg, v) = split_sign (filter (\<lambda>c. c \<noteq> CHR ''_'') t) in
       case special_value v of
         Some x \<Rightarrow> Inr (if neg then fneg x else x)
       | None \<Rightarrow> (case decimal_number v of
                    None \<Rightarrow> Inl ValueError
                  | Some r \<Rightarrow> Inr (mk_float (if neg then - r else r))))"

text \<open>Python's \<open>int(float)\<close>: truncation towards zero; an infinity raises OverflowError,
  NaN raises ValueError.\<close>

fun py_int :: "pyfloat \<Rightarrow> py_exception + int" where
  "py_int (Fin r) = Inr (if 0 \<le> r then \<lfloor>r\<rfloor> else \<lceil>r\<rceil>)"
| "py_int PInf = Inl OverflowError"
| "py_int NInf = Inl OverflowError"
| "py_int NaN = Inl ValueError"

section \<open>safe_float and safe_int\<close>

text \<open>\<open>re.sub(r'[^\d.-]+', '', s)\<close>: every character that is not a digit, a point or a
  minus sign is removed.\<close>

definition keep_numeric :: "string \<Rightarrow> string" where
  "keep_numeric s = filter (\<lambda>c. is_digit c \<or> c = CHR ''.'' \<or> c = CHR ''-'') s"

text \<open>The handler \<open>except (ValueError, TypeError)\<close>: any other exception leaves the
  function.\<close>

definition caught :: "py_exception \<Rightarrow> bool" where
  "caught e = (e = ValueError \<or> e = TypeError)"

text \<open>The argument is \<open>None\<close> or a string, as the form variables and the callers give it.\<close>

definition safe_float :: "string option \<Rightarrow> pyfloat \<Rightarrow> py_exception + pyfloat" where
  "safe_float val dflt = (case val of
       None \<Rightarrow> Inr dflt
     | Some s \<Rightarrow>
         if strip s = [] then Inr dflt
         else let cleaned_value = keep_numeric s in
           if cleaned_value \<noteq> [] \<and> cleaned_value \<noteq> ''-''
           then (case py_float cleaned_value of
                   Inr x \<Rightarrow> Inr x
                 | Inl e \<Rightarrow> if caught e then Inr dflt else Inl e)
           else Inr dflt)"

definition safe_int :: "string option \<Rightarrow> int \<Rightarrow> py_exception + int" where
  "safe_int val dflt = (case val of
       None \<Rightarrow> Inr dflt
     | Some s \<Rightarrow>
         if strip s = [] then Inr dflt
         else (case safe_float val (Fin 0) of
                 Inl e \<Rightarrow> if caught e then Inr dflt else Inl e
               | Inr float_val \<Rightarrow>
                   (case py_int float_val of
                      Inr n \<Rightarrow> Inr n
                    | Inl e \<Rightarrow> if caught e then Inr dflt else Inl e)))"

section \<open>The database\<close>

text \<open>
  The tables of \<open>create_tables\<close>.  A REAL column holds an exact rational (finite values
  only; NULL and the non-finite floats are outside the model of the ledger).  A table
  with an AUTOINCREMENT key that is looked up by key is a list of (id, row) pairs in
  insertion order; the append-only tables \<open>transaction_items\<close> and
  \<open>stock_movements\<close> are lists of rows, the row id being the position.  The notes
  column of \<open>stock_movements\<close> (a rendering of the quantity as text) and the
  \<open>synced\<close> flags are left out.  The tables \<open>clients\<close> and \<open>suppliers\<close> are not
  created by the program; \<open>add_sale\<close> looks for them in \<open>sqlite_master\<close>, so the state
  says whether each is there, and holds its \<open>credit_balance\<close> column by id.
\<close>

type_synonym date = string

record product =
  p_name :: string
  p_price :: rat
  current_stock :: rat
  p_active :: bool

record customer =
  c_name :: string
  contact :: string
  credit_balance :: rat
  c_active :: bool
  is_supplier :: int

record transaction_row =
  t_date :: date
  t_customer_id :: nat
  transaction_type :: string
  total_amount :: rat
  cash_received :: rat
  previous_credit :: rat
  updated_credit :: rat
  t_notes :: string

record transaction_item =
  ti_transaction_id :: nat
  ti_product_id :: nat
  ti_quantity :: rat
  unit_price :: rat
  subtotal :: rat

record stock_movement =
  sm_date :: date
  sm_product_id :: nat
  quantity_change :: rat
  sm_transaction_id :: nat
  movement_type :: string

record daily_stock_row =
  ds_date :: date
  ds_product_id :: nat
  opening_stock :: rat
  purchases :: rat
  sales :: rat
  adjustments :: rat
  closing_stock :: rat

record database =
  products :: "(nat \<times> product) list"
  customers :: "(nat \<times> customer) list"
  transactions :: "(nat \<times> transaction_row) list"
  transaction_items :: "transaction_item list"
  stock_movements :: "stock_movement list"
  daily_stock :: "daily_stock_row list"
  clients :: "(nat \<times> rat) list option"
  suppliers :: "(nat \<times> rat) list option"

text \<open>The entries of the \<open>items\<close> list of \<open>add_sale\<close>: dictionaries with these three keys.\<close>

record item =
  product_id :: nat
  quantity :: rat
  price :: rat

text \<open>\<open>cursor.lastrowid\<close> after an insert into a table with an AUTOINCREMENT key: one
  more than the largest key (no row of these tables is ever deleted).\<close>

definition next_id :: "(nat \<times> 'a) list \<Rightarrow> nat" where
  "next_id tbl = Suc (fold max (map fst tbl) 0)"

text \<open>\<open>UPDATE t SET credit_balance = ? WHERE id = ?\<close> on the three partner tables.\<close>

definition set_customer_credit :: "nat \<Rightarrow> rat \<Rightarrow> (nat \<times> customer) list \<Rightarrow> (nat \<times> customer) list" where
  "set_customer_credit cid v tbl =
     map (\<lambda>(i, c). if i = cid then (i, c\<lparr>credit_balance := v\<rparr>) else (i, c)) tbl"

definition set_legacy_credit :: "nat \<Rightarrow> rat \<Rightarrow> (nat \<times> rat) list \<Rightarrow> (nat \<times> rat) list" where
  "set_legacy_credit cid v tbl = map (\<lambda>(i, c). if i = cid then (i, v) else (i, c)) tbl"

section \<open>add_sale\<close>

text \<open>
  Every \<open>execute\<close> and the \<open>commit\<close> may raise (the storage fails, the database is
  locked).  The environment is a predicate on the statements of one call, counted from
  0: statement \<open>n\<close> raises when the predicate holds at \<open>n\<close>.  A statement that raises
  changes nothing and leaves the \<open>try\<close> block.
\<close>

type_synonym fault = "nat \<Rightarrow> bool"

definition stmt :: "fault \<Rightarrow> nat \<Rightarrow> py_exception + 'a \<Rightarrow> py_exception + 'a" where
  "stmt flt n k = (if flt n then Inl OperationalError else k)"

text \<open>Lines 405-410: the stock of the product, 0 when no row has the id.\<close>

definition read_stock :: "(nat \<times> product) list \<Rightarrow> nat \<Rightarrow> rat" where
  "read_stock ps pid = (case map_of ps pid of None \<Rightarrow> 0 | Some p \<Rightarrow> current_stock p)"

text \<open>Lines 412-418: any type other than \<open>'sale'\<close> is handled as a purchase.\<close>

definition new_stock_of :: "string \<Rightarrow> rat \<Rightarrow> rat \<Rightarrow> rat" where
  "new_stock_of ttype cur q = (if ttype = ''sale'' then cur - q else cur + q)"

definition quantity_change_of :: "string \<Rightarrow> rat \<Rightarrow> rat" where
  "quantity_change_of ttype q = (if ttype = ''sale'' then - q else q)"

text \<open>Lines 432-467: the row of the date and product is read with \<open>fetchone\<close>; when
  there is one, the UPDATE writes the new sum and the new stock into every row of that
  date and product; otherwise a row is inserted.\<close>

definition ds_match :: "date \<Rightarrow> nat \<Rightarrow> daily_stock_row \<Rightarrow> bool" where
  "ds_match d pid r = (ds_date r = d \<and> ds_product_id r = pid)"

definition daily_stock_upsert ::
  "date \<Rightarrow> nat \<Rightarrow> string \<Rightarrow> rat \<Rightarrow> rat \<Rightarrow> rat \<Rightarrow> daily_stock_row list \<Rightarrow> daily_stock_row list" where
  "daily_stock_upsert d pid ttype q cur new_stock rows =
     (case find (ds_match d pid) rows of
        Some daily \<Rightarrow>
          if ttype = ''sale''
          then map (\<lambda>r. if ds_match d pid r
                         then r\<lparr>sales := sales daily + q, closing_stock := new_stock\<rparr> else r) rows
          else map (\<lambda>r. if ds_match d pid r
                         then r\<lparr>purchases := purchases daily + q, closing_stock := new_stock\<rparr> else r) rows
      | None \<Rightarrow>
          if ttype = ''sale''
          then rows @ [\<lparr>ds_date = d, ds_product_id = pid, opening_stock = cur, purchases = 0,
                         sales = q, adjustments = 0, closing_stock = new_stock\<rparr>]
          else rows @ [\<lparr>ds_date = d, ds_product_id = pid, opening_stock = cur, purchases = q,
                         sales = 0, adjustments = 0, closing_stock = new_stock\<rparr>])"

text \<open>Line 473.\<close>

definition set_stock :: "nat \<Rightarrow> rat \<Rightarrow> (nat \<times> product) list \<Rightarrow> (nat \<times> product) list" where
  "set_stock pid v ps = map (\<lambda>(i, p). if i = pid then (i, p\<lparr>current_stock := v\<rparr>) else (i, p)) ps"

text \<open>The body of the loop over the items (lines 395-473): nine statements.  The two
  look-ups in \<open>sqlite_master\<close> find the tables that \<open>create_tables\<close> has made, and the
  PRAGMA finds the \<open>current_stock\<close> column.\<close>

definition add_sale_item ::
  "fault \<Rightarrow> nat \<Rightarrow> date \<Rightarrow> nat \<Rightarrow> string \<Rightarrow> item \<Rightarrow> database \<Rightarrow> py_exception + database \<times> nat" where
  "add_sale_item flt n d tid ttype it w =
     stmt flt n (let w1 = w\<lparr>transaction_items := transaction_items w @
                        [\<lparr>ti_transaction_id = tid, ti_product_id = product_id it,
                          ti_quantity = quantity it, unit_price = price it,
                          subtotal = quantity it * price it\<rparr>]\<rparr> in
     stmt flt (n + 1) (let cur = read_stock (products w1) (product_id it);
                           new_stock = new_stock_of ttype cur (quantity it);
                           qc = quantity_change_of ttype (quantity it) in
     stmt flt (n + 2) (
     stmt flt (n + 3) (let w2 = w1\<lparr>stock_movements := stock_movements w1 @
                        [\<lparr>sm_date = d, sm_product_id = product_id it, quantity_change = qc,
                          sm_transaction_id = tid, movement_type = ttype\<rparr>]\<rparr> in
     stmt flt (n + 4) (
     stmt flt (n + 5) (
     stmt flt (n + 6) (let w3 = w2\<lparr>daily_stock :=
                          daily_stock_upsert d (product_id it) ttype (quantity it) cur new_stock
                            (daily_stock w2)\<rparr> in
     stmt flt (n + 7) (
     stmt flt (n + 8) (
       Inr (w3\<lparr>products := set_stock (product_id it) new_stock (products w3)\<rparr>, n + 9))))))))))"

fun add_sale_items ::
  "fault \<Rightarrow> nat \<Rightarrow> date \<Rightarrow> nat \<Rightarrow> string \<Rightarrow> item list \<Rightarrow> database \<Rightarrow> py_exception + database \<times> nat" where
  "add_sale_items flt n d tid ttype [] w = Inr (w, n)"
| "add_sale_items flt n d tid ttype (it # its) w =
     (case add_sale_item flt n d tid ttype it w of
        Inl e \<Rightarrow> Inl e
      | Inr (w', n') \<Rightarrow> add_sale_items flt n' d tid ttype its w')"

text \<open>Lines 475-495: the balance goes to \<open>clients\<close> (sale) or \<open>suppliers\<close> (purchase)
  when that table is there, to \<open>customers\<close> otherwise.\<close>

definition update_credit :: "fault \<Rightarrow> nat \<Rightarrow> string \<Rightarrow> nat \<Rightarrow> rat \<Rightarrow> database \<Rightarrow> py_exception + database" where
  "update_credit flt n ttype cid uc w =
     stmt flt n (
     stmt flt (n + 1) (Inr (
       if ttype = ''sale''
       then (case clients w of
               Some tbl \<Rightarrow> w\<lparr>clients := Some (set_legacy_credit cid uc tbl)\<rparr>
             | None \<Rightarrow> w\<lparr>customers := set_customer_credit cid uc (customers w)\<rparr>)
       else (case suppliers w of
               Some tbl \<Rightarrow> w\<lparr>suppliers := Some (set_legacy_credit cid uc tbl)\<rparr>
             | None \<Rightarrow> w\<lparr>customers := set_customer_credit cid uc (customers w)\<rparr>))))"

text \<open>The \<open>try\<close> block: BEGIN, the header, the items, the balance, the commit.\<close>

definition add_sale_try ::
  "database \<Rightarrow> fault \<Rightarrow> date \<Rightarrow> nat \<Rightarrow> item list \<Rightarrow> rat \<Rightarrow> rat \<Rightarrow> rat \<Rightarrow> rat \<Rightarrow> string \<Rightarrow> string
     \<Rightarrow> py_exception + database \<times> nat" where
  "add_sale_try db flt d cid items ta cr pc uc notes ttype =
     stmt flt 0 (
     stmt flt 1 (let transaction_id = next_id (transactions db);
                     w = db\<lparr>transactions := transactions db @
                           [(transaction_id, \<lparr>t_date = d, t_customer_id = cid, transaction_type = ttype,
                              total_amount = ta, cash_received = cr, previous_credit = pc,
                              updated_credit = uc, t_notes = notes\<rparr>)]\<rparr> in
       case add_sale_items flt 2 d transaction_id ttype items w of
         Inl e \<Rightarrow> Inl e
       | Inr (w', n) \<Rightarrow>
          (case update_credit flt n ttype cid uc w' of
             Inl e \<Rightarrow> Inl e
           | Inr w'' \<Rightarrow> stmt flt (n + 2) (Inr (w'', transaction_id)))))"

text \<open>\<open>add_sale\<close>: the handler \<open>except Exception\<close> rolls back to the state before BEGIN
  and returns \<open>None\<close>; otherwise the work is committed and the id is returned.\<close>

definition add_sale ::
  "database \<Rightarrow> fault \<Rightarrow> date \<Rightarrow> nat \<Rightarrow> item list \<Rightarrow> rat \<Rightarrow> rat \<Rightarrow> rat \<Rightarrow> rat \<Rightarrow> string \<Rightarrow> string
     \<Rightarrow> database \<times> nat option" where
  "add_sale db flt d cid items ta cr pc uc notes ttype =
     (case add_sale_try db flt d cid items ta cr pc uc notes ttype of
        Inl e \<Rightarrow> (db, None)
      | Inr (w, transaction_id) \<Rightarrow> (w, Some transaction_id))"

definition add_purchase ::
  "database \<Rightarrow> fault \<Rightarrow> date \<Rightarrow> nat \<Rightarrow> item list \<Rightarrow> rat \<Rightarrow> rat \<Rightarrow> rat \<Rightarrow> rat \<Rightarrow> string
     \<Rightarrow> database \<times> nat option" where
  "add_purchase db flt d supplier_id items ta cash_paid pc uc notes =
     add_sale db flt d supplier_id items ta cash_paid pc uc notes ''purchase''"

section \<open>The effects of a recorded transaction\<close>

text \<open>The rows that \<open>add_sale\<close> writes, and the state it leaves when no statement
  fails, written out once; the theorems relate \<open>add_sale\<close> to them.\<close>

definition header_row ::
  "date \<Rightarrow> nat \<Rightarrow> string \<Rightarrow> rat \<Rightarrow> rat \<Rightarrow> rat \<Rightarrow> rat \<Rightarrow> string \<Rightarrow> transaction_row" where
  "header_row d cid ttype ta cr pc uc notes =
     \<lparr>t_date = d, t_customer_id = cid, transaction_type = ttype, total_amount = ta,
      cash_received = cr, previous_credit = pc, updated_credit = uc, t_notes = notes\<rparr>"

definition item_row :: "nat \<Rightarrow> item \<Rightarrow> transaction_item" where
  "item_row tid it = \<lparr>ti_transaction_id = tid, ti_product_id = product_id it,
      ti_quantity = quantity it, unit_price = price it, subtotal = quantity it * price it\<rparr>"

definition movement_row :: "date \<Rightarrow> nat \<Rightarrow> string \<Rightarrow> item \<Rightarrow> stock_movement" where
  "movement_row d tid ttype it = \<lparr>sm_date = d, sm_product_id = product_id it,
      quantity_change = quantity_change_of ttype (quantity it),
      sm_transaction_id = tid, movement_type = ttype\<rparr>"

text \<open>What one item does to the products and the daily stock, and what a list of items
  does, in the order of the list.\<close>

definition stock_step ::
  "date \<Rightarrow> string \<Rightarrow> (nat \<times> product) list \<times> daily_stock_row list \<Rightarrow> item
     \<Rightarrow> (nat \<times> product) list \<times> daily_stock_row list" where
  "stock_step d ttype st it =
     (let cur = read_stock (fst st) (product_id it);
          new_stock = new_stock_of ttype cur (quantity it)
      in (set_stock (product_id it) new_stock (fst st),
          daily_stock_upsert d (product_id it) ttype (quantity it) cur new_stock (snd st)))"

definition stock_steps ::
  "date \<Rightarrow> string \<Rightarrow> (nat \<times> product) list \<times> daily_stock_row list \<Rightarrow> item list
     \<Rightarrow> (nat \<times> product) list \<times> daily_stock_row list" where
  "stock_steps d ttype st its = foldl (stock_step d ttype) st its"


definition credit_effect :: "string \<Rightarrow> nat \<Rightarrow> rat \<Rightarrow> database \<Rightarrow> database" where
  "credit_effect ttype cid uc w =
     (if ttype = ''sale''
       then (case clients w of
               Some tbl \<Rightarrow> w\<lparr>clients := Some (set_legacy_credit cid uc tbl)\<rparr>
             | None \<Rightarrow> w\<lparr>customers := set_customer_credit cid uc (customers w)\<rparr>)
       else (case suppliers w of
               Some tbl \<Rightarrow> w\<lparr>suppliers := Some (set_legacy_credit cid uc tbl)\<rparr>
             | None \<Rightarrow> w\<lparr>customers := set_customer_credit cid uc (customers w)\<rparr>))"

definition sale_effects ::
  "database \<Rightarrow> date \<Rightarrow> nat \<Rightarrow> item list \<Rightarrow> rat \<Rightarrow> rat \<Rightarrow> rat \<Rightarrow> rat \<Rightarrow> string \<Rightarrow> string \<Rightarrow> database" where
  "sale_effects db d cid items ta cr pc uc notes ttype =
     (let tid = next_id (transactions db) in
      credit_effect ttype cid uc
       (db\<lparr>transactions := transactions db @ [(tid, header_row d cid ttype ta cr pc uc notes)],
           transaction_items := transaction_items db @ map (item_row tid) items,
           stock_movements := stock_movements db @ map (movement_row d tid ttype) items,
           daily_stock := snd (stock_steps d ttype (products db, daily_stock db) items),
           products := fst (stock_steps d ttype (products db, daily_stock db) items)\<rparr>))"

section \<open>Example data\<close>

text \<open>Two products and two partners; no transaction yet.\<close>

definition db0 :: database where
  "db0 = \<lparr>products = [(1, \<lparr>p_name = ''A'', p_price = 50, current_stock = 20, p_active = True\<rparr>),
                      (2, \<lparr>p_name = ''B'', p_price = 10, current_stock = 5, p_active = True\<rparr>)],
          customers = [(1, \<lparr>c_name = ''Ann'', contact = '''', credit_balance = 100,
                            c_active = True, is_supplier = 0\<rparr>),
                       (2, \<lparr>c_name = ''Dairy'', contact = '''', credit_balance = 0,
                            c_active = True, is_supplier = 1\<rparr>)],
          transactions = [], transaction_items = [], stock_movements = [], daily_stock = [],
          clients = None, suppliers = None\<rparr>"

definition D1 :: date where "D1 = ''2024-03-01''"

definition no_fault :: fault where "no_fault = (\<lambda>n. False)"


section \<open>Partners\<close>

text \<open>\<open>SELECT ... FROM customers WHERE name = ?\<close> with \<open>fetchone\<close>.\<close>

definition customer_by_name :: "database \<Rightarrow> string \<Rightarrow> (nat \<times> customer) option" where
  "customer_by_name db name = find (\<lambda>(i, c). c_name c = name) (customers db)"

text \<open>\<open>add_or_update_customer\<close> (lines 333-346): an insert that, on a conflict on the
  unique name, updates the contact, the balance and the supplier flag of the row of
  that name.  The defaults of the arguments are \<open>contact = ''\<close>, \<open>credit_balance = 0\<close>,
  \<open>is_supplier = 0\<close>.  An exception of the statement (index 0) or of the commit
  (index 1) is caught and gives \<open>False\<close>; nothing is rolled back, so after a failed
  commit the connection still sees the write.\<close>

definition upsert_customer_rows ::
  "string \<Rightarrow> string \<Rightarrow> rat \<Rightarrow> int \<Rightarrow> (nat \<times> customer) list \<Rightarrow> (nat \<times> customer) list" where
  "upsert_customer_rows name ct cb supp tbl =
     (if \<exists>(i, c) \<in> set tbl. c_name c = name
      then map (\<lambda>(i, c). if c_name c = name
                 then (i, c\<lparr>contact := ct, credit_balance := cb, is_supplier := supp\<rparr>)
                 else (i, c)) tbl
      else tbl @ [(next_id tbl, \<lparr>c_name = name, contact = ct, credit_balance = cb,
                                 c_active = True, is_supplier = supp\<rparr>)])"

definition add_or_update_customer ::
  "database \<Rightarrow> fault \<Rightarrow> string \<Rightarrow> string \<Rightarrow> rat \<Rightarrow> int \<Rightarrow> database \<times> bool" where
  "add_or_update_customer db flt name ct cb supp =
     (if flt 0 then (db, False)
      else let w = db\<lparr>customers := upsert_customer_rows name ct cb supp (customers db)\<rparr>
           in if flt 1 then (w, False) else (w, True))"


section \<open>Sequences of calls\<close>







text \<open>What the calls keep when their dates do not decrease, \<open>d\<close> being the date of the
  last call: a date and a product have one row at most, every row is balanced, no row
  is later than \<open>d\<close>, and the closing stock of a row of \<open>d\<close> is the stock of its
  product.\<close>

definition row_key :: "daily_stock_row \<Rightarrow> date \<times> nat" where
  "row_key r = (ds_date r, ds_product_id r)"


section \<open>Properties of safe_float and safe_int\<close>

lemma safe_float_total: "\<exists>x. safe_float v d = Inr x"
  by (auto simp: safe_float_def py_float_def caught_def Let_def
           split: option.splits sum.splits prod.splits)

lemma safe_float_default:
  "safe_float None d = Inr d"
  "strip s = [] \<Longrightarrow> safe_float (Some s) d = Inr d"
  "py_float (keep_numeric s) = Inl e \<Longrightarrow> safe_float (Some s) d = Inr d"
  by (auto simp: safe_float_def py_float_def caught_def Let_def
           split: option.splits sum.splits prod.splits if_splits)

text \<open>
  C9.  \<open>safe_float\<close> never raises and gives the default for input that does not parse
  (the two lemmas above).  \<open>safe_int\<close> does not do what its docstring says: for text
  that does not parse it returns 0 and not its default, because it calls
  \<open>safe_float\<close> with the default 0.0 and so never sees a failure; and for a digit string
  beyond the range of a double the conversion of the infinity to an integer raises
  OverflowError, which the handler does not catch.
\<close>

theorem safe_int_ignores_default:
  "safe_int (Some ''abc'') 5 = Inr 0"
  by (simp add: safe_int_def safe_float_def strip_def py_isspace_def keep_numeric_def
        is_digit_def)

section \<open>Atomicity of add_sale\<close>












section \<open>Stock conservation\<close>



lemma products_credit_effect [simp]: "products (credit_effect ttype cid uc w) = products w"
  by (simp add: credit_effect_def split: option.splits)

lemma daily_stock_credit_effect [simp]: "daily_stock (credit_effect ttype cid uc w) = daily_stock w"
  by (simp add: credit_effect_def split: option.splits)



lemma map_of_set_stock:
  "map_of (set_stock pid v ps) k =
     (if k = pid then map_option (\<lambda>p. p\<lparr>current_stock := v\<rparr>) (map_of ps k) else map_of ps k)"
  by (induction ps) (auto simp: set_stock_def)

lemma stock_steps_Nil [simp]: "stock_steps d ttype st [] = st"
  by (simp add: stock_steps_def)

lemma stock_steps_Cons [simp]:
  "stock_steps d ttype st (it # its) = stock_steps d ttype (stock_step d ttype st it) its"
  by (simp add: stock_steps_def)







section \<open>The daily stock row\<close>


lemma ds_match_upd [simp]:
  "ds_match d pid (r\<lparr>sales := a, closing_stock := c\<rparr>) = ds_match d pid r"
  "ds_match d pid (r\<lparr>purchases := a, closing_stock := c\<rparr>) = ds_match d pid r"
  by (simp_all add: ds_match_def)





section \<open>Upsert of a partner\<close>

lemma find_map_pair:
  assumes "\<And>i c. P (f (i, c)) = P (i, c)"
  shows "find P (map f xs) = map_option f (find P xs)"
  by (induction xs) (auto simp: assms)

lemma find_SomeD: "find P xs = Some x \<Longrightarrow> x \<in> set xs \<and> P x"
  by (induction xs) (auto split: if_splits)

lemma upsert_overwrites_facts:
  assumes ex: "customer_by_name db name = Some (i, c)"
      and ok: "\<not> flt 0"
  shows "customer_by_name (fst (add_or_update_customer db flt name ct cb supp)) name =
           Some (i, c\<lparr>contact := ct, credit_balance := cb, is_supplier := supp\<rparr>)"
    and "name' \<noteq> name \<Longrightarrow>
           customer_by_name (fst (add_or_update_customer db flt name ct cb supp)) name' =
           customer_by_name db name'"
    and "map fst (customers (fst (add_or_update_customer db flt name ct cb supp))) =
           map fst (customers db)"
    and "customer_by_name (fst (add_or_update_customer db flt name [] 0 0)) name =
           Some (i, c\<lparr>contact := [], credit_balance := 0, is_supplier := 0\<rparr>)"
proof -
  have mem: "(i, c) \<in> set (customers db)" and cn: "c_name c = name"
    using find_SomeD [of "\<lambda>(i, c). c_name c = name" "customers db" "(i, c)"] ex
    by (simp_all add: customer_by_name_def)
  have inn: "\<exists>(j, x) \<in> set (customers db). c_name x = name"
    using mem cn by (intro bexI [of _ "(i, c)"]) simp_all
  have rows: "\<And>ct cb supp. customers (fst (add_or_update_customer db flt name ct cb supp)) =
      map (\<lambda>(i, c). if c_name c = name
                 then (i, c\<lparr>contact := ct, credit_balance := cb, is_supplier := supp\<rparr>)
                 else (i, c)) (customers db)"
    using inn ok by (simp add: add_or_update_customer_def upsert_customer_rows_def Let_def)
  have look: "\<And>ct cb supp n. customer_by_name (fst (add_or_update_customer db flt name ct cb supp)) n =
      map_option (\<lambda>(i, c). if c_name c = name
                 then (i, c\<lparr>contact := ct, credit_balance := cb, is_supplier := supp\<rparr>)
                 else (i, c)) (customer_by_name db n)"
    unfolding customer_by_name_def rows
    by (rule find_map_pair) auto
  show "customer_by_name (fst (add_or_update_customer db flt name ct cb supp)) name =
           Some (i, c\<lparr>contact := ct, credit_balance := cb, is_supplier := supp\<rparr>)"
    by (simp add: look ex cn)
  show "customer_by_name (fst (add_or_update_customer db flt name [] 0 0)) name =
           Some (i, c\<lparr>contact := [], credit_balance := 0, is_supplier := 0\<rparr>)"
    by (simp add: look ex cn)
  show "map fst (customers (fst (add_or_update_customer db flt name ct cb supp))) =
           map fst (customers db)"
    by (simp add: rows comp_def case_prod_beta)
  show "customer_by_name (fst (add_or_update_customer db flt name ct cb supp)) name' =
           customer_by_name db name'" if "name' \<noteq> name"
  proof (cases "customer_by_name db name'")
    case None
    then show ?thesis by (simp add: look)
  next
    case (Some jx)
    obtain j x where jx: "jx = (j, x)" by (cases jx)
    have "c_name x = name'"
      using find_SomeD [of "\<lambda>(i, c). c_name c = name'" "customers db" "(j, x)"] Some jx
      by (simp add: customer_by_name_def)
    then show ?thesis using that by (simp add: look Some jx)
  qed
qed


text \<open>
  C10.  When a partner of the name exists, \<open>add_or_update_customer\<close> with that name
  leaves the row with its id, and with the contact, the balance and the supplier flag
  given in the call; no row is added and the partners of other names are as before.
  With the default balance 0 the balance of the partner becomes 0, whatever
  transactions had made of it.
\<close>

theorem upsert_overwrites:
  assumes ex: "customer_by_name db name = Some (i, c)"
      and ok: "\<not> flt 0"
  shows "customer_by_name (fst (add_or_update_customer db flt name ct cb supp)) name =
           Some (i, c\<lparr>contact := ct, credit_balance := cb, is_supplier := supp\<rparr>) \<and>
         (\<forall>name'. name' \<noteq> name \<longrightarrow>
           customer_by_name (fst (add_or_update_customer db flt name ct cb supp)) name' =
           customer_by_name db name') \<and>
         map fst (customers (fst (add_or_update_customer db flt name ct cb supp))) =
           map fst (customers db) \<and>
         customer_by_name (fst (add_or_update_customer db flt name [] 0 0)) name =
           Some (i, c\<lparr>contact := [], credit_balance := 0, is_supplier := 0\<rparr>)"
  using upsert_overwrites_facts [where flt = flt, OF ex ok] by blast

theorem upsert_overwrites_witness:
  "customer_by_name (sale_effects db0 D1 1 [\<lparr>product_id = 1, quantity = 5, price = 50\<rparr>]
       250 200 100 150 [] ''sale'') ''Ann''
     = Some (1, \<lparr>c_name = ''Ann'', contact = [], credit_balance = 150, c_active = True,
                 is_supplier = 0\<rparr>) \<and>
   customer_by_name (fst (add_or_update_customer
       (sale_effects db0 D1 1 [\<lparr>product_id = 1, quantity = 5, price = 50\<rparr>]
          250 200 100 150 [] ''sale'') no_fault ''Ann'' [] 0 0)) ''Ann''
     = Some (1, \<lparr>c_name = ''Ann'', contact = [], credit_balance = 0, c_active = True,
                 is_supplier = 0\<rparr>)"
proof -
  let ?db = "sale_effects db0 D1 1 [\<lparr>product_id = 1, quantity = 5, price = 50\<rparr>]
       250 200 100 150 [] ''sale''"
  have ex: "customer_by_name ?db ''Ann'' =
      Some (1, \<lparr>c_name = ''Ann'', contact = [], credit_balance = 150, c_active = True,
                 is_supplier = 0\<rparr>)"
    by (simp add: customer_by_name_def sale_effects_def credit_effect_def
          set_customer_credit_def db0_def Let_def)
  have ok: "\<not> no_fault 0"
    by (simp add: no_fault_def)
  from upsert_overwrites [where flt = no_fault, OF ex ok, of "[]" 0 0] show ?thesis
    using ex by simp
qed

section \<open>Two lines of one product\<close>




lemma map_of_set_stock_None [simp]:
  "(map_of (set_stock a v ps) k = None) = (map_of ps k = None)"
  by (simp add: map_of_set_stock)



lemma ds_match_new [simp]:
  "ds_match d a \<lparr>ds_date = d, ds_product_id = a, opening_stock = x1, purchases = x2,
      sales = x3, adjustments = x4, closing_stock = x5\<rparr>"
  by (simp add: ds_match_def)




















section \<open>The snapshot invariant\<close>






lemma row_key_upd [simp]:
  "row_key (r\<lparr>sales := a, closing_stock := c\<rparr>) = row_key r"
  "row_key (r\<lparr>purchases := a, closing_stock := c\<rparr>) = row_key r"
  by (simp_all add: row_key_def)












end
